theory Spec2Isabelle
  imports Main "HOL-Library.Word"
begin

unbundle bit_operations_syntax

section \<open>The MSM cpufreq driver (arch/arm/mach-msm/cpufreq.c)\<close>

text \<open>
  The driver is embedded as state-passing functions. Everything the driver calls outside
  its own file (scheduler, notifier chain, clock driver, mutex, workqueue, completion) is
  a primitive that appends an \<open>event\<close> to the \<open>trace\<close> of the state, so that the
  order of the calls and their absence can be stated. The embedding is sequential: each
  entry point runs to its end and finds the suspend mutex free.
\<close>

subsection \<open>Constants of the kernel headers\<close>

text \<open>
  The values of \<open>asm-generic/errno-base.h\<close>, \<open>linux/sched.h\<close>, \<open>linux/notifier.h\<close> and
  \<open>linux/cpu.h\<close>, which the file includes and does not define. \<open>unsigned long\<close> has 32
  bits on this architecture.
\<close>

definition ENOMEM :: int where "ENOMEM = 12"
definition EFAULT :: int where "EFAULT = 14"
definition ENODEV :: int where "ENODEV = 19"
definition EINVAL :: int where "EINVAL = 22"

definition SCHED_FIFO :: "32 word" where "SCHED_FIFO = 1"
definition MAX_RT_PRIO :: int where "MAX_RT_PRIO = 100"

definition NOTIFY_OK :: int where "NOTIFY_OK = 1"

definition CPU_ONLINE :: "32 word" where "CPU_ONLINE = 0x0002"
definition CPU_DOWN_PREPARE :: "32 word" where "CPU_DOWN_PREPARE = 0x0005"
definition CPU_DOWN_FAILED :: "32 word" where "CPU_DOWN_FAILED = 0x0006"
definition CPU_TASKS_FROZEN :: "32 word" where "CPU_TASKS_FROZEN = 0x0010"
definition CPU_ONLINE_FROZEN :: "32 word" where
  "CPU_ONLINE_FROZEN = CPU_ONLINE OR CPU_TASKS_FROZEN"
definition CPU_DOWN_PREPARE_FROZEN :: "32 word" where
  "CPU_DOWN_PREPARE_FROZEN = CPU_DOWN_PREPARE OR CPU_TASKS_FROZEN"
definition CPU_DOWN_FAILED_FROZEN :: "32 word" where
  "CPU_DOWN_FAILED_FROZEN = CPU_DOWN_FAILED OR CPU_TASKS_FROZEN"

datatype relation = CPUFREQ_RELATION_L | CPUFREQ_RELATION_H

datatype phase = CPUFREQ_PRECHANGE | CPUFREQ_POSTCHANGE

subsection \<open>Data\<close>

text \<open>
  \<open>struct cpufreq_policy\<close>: the two fields the driver's transition code reads and
  writes. The fields \<open>cpus\<close>, \<open>cpuinfo\<close>, \<open>min\<close> and \<open>max\<close> are only handed to helpers
  outside the file and are left out.
\<close>

record cpufreq_policy =
  cpu :: nat
  cur :: "32 word"

text \<open>
  The fields of \<open>current\<close> the driver touches: \<open>unsigned int policy\<close>,
  \<open>unsigned int rt_priority\<close> and the affinity mask \<open>cpus_allowed\<close>, a set of core
  numbers.
\<close>

record task_struct =
  policy :: "32 word"
  rt_priority :: "32 word"
  cpus_allowed :: "nat set"

text \<open>
  \<open>struct cpufreq_work_struct\<close>. \<open>work_pending\<close> stands for the \<open>work\<close> member (the
  item is queued and has not run), \<open>work_policy\<close> for the pointer member \<open>policy\<close>
  (\<open>None\<close> is \<open>NULL\<close>; the policy is never written through it), \<open>complete_done\<close> for
  the counter of the \<open>complete\<close> member. \<open>frequency\<close> is an \<open>int\<close> in C that only
  ever carries an \<open>unsigned int\<close> to an \<open>unsigned int\<close>, so it keeps the 32 bits.
\<close>

record cpufreq_work_struct =
  work_pending :: bool
  work_policy :: "cpufreq_policy option"
  complete_done :: nat
  frequency :: "32 word"
  status :: int

text \<open>
  \<open>struct cpufreq_suspend_t\<close>. The mutex member is represented by the \<open>MutexLock\<close> and
  \<open>MutexUnlock\<close> events of the trace.
\<close>

record cpufreq_suspend_t =
  device_suspended :: int

datatype event =
    SchedSetscheduler int int
  | NotifyTransition nat "32 word" "32 word" phase
  | AcpuclkSetRate nat "32 word" int
  | MutexLock nat
  | MutexUnlock nat
  | StoreSuspended nat int
  | CancelWorkSync nat
  | InitCompletion nat
  | QueueWorkOn nat
  | Complete nat
  | WaitForCompletion nat

text \<open>
  The per-CPU variables \<open>cpufreq_work\<close> and \<open>cpufreq_suspend\<close>, the running task
  \<open>current\<close>, the worker task of the driver's workqueue on each core, and the trace.
\<close>

record state =
  cpufreq_work :: "nat \<Rightarrow> cpufreq_work_struct"
  cpufreq_suspend :: "nat \<Rightarrow> cpufreq_suspend_t"
  current :: task_struct
  kworker :: "nat \<Rightarrow> task_struct"
  trace :: "event list"

text \<open>
  What the rest of the kernel answers: \<open>cpu_active\<close>, whether \<open>alloc_cpumask_var\<close>
  succeeds, the table \<open>cpufreq_frequency_get_table\<close> returns (\<open>None\<close> is \<open>NULL\<close>; a
  table is the list of its frequencies), the return value of \<open>acpuclk_set_rate\<close>, the
  rate \<open>acpuclk_get_rate\<close> reports, and the cores of \<open>for_each_possible_cpu\<close>.
\<close>

record env =
  cpu_active :: "nat \<Rightarrow> bool"
  alloc_cpumask_var :: bool
  cpufreq_frequency_get_table :: "nat \<Rightarrow> 32 word list option"
  acpuclk_set_rate :: "nat \<Rightarrow> 32 word \<Rightarrow> int"
  acpuclk_get_rate :: "nat \<Rightarrow> 32 word"
  possible_cpus :: "nat list"

subsection \<open>Primitives\<close>

definition emit :: "event \<Rightarrow> state \<Rightarrow> state" where
  "emit ev s = s\<lparr>trace := trace s @ [ev]\<rparr>"

text \<open>The events a call appended: the trace after it, without the trace before it.\<close>

definition emitted :: "state \<Rightarrow> state \<Rightarrow> event list" where
  "emitted s s' = drop (length (trace s)) (trace s')"

text \<open>
  Modelled from the spec: \<open>sched_setscheduler_nocheck\<close> is not in the file; the spec
  has it switch the calling task to the given scheduling class and priority.
\<close>

definition sched_setscheduler_nocheck :: "int \<Rightarrow> int \<Rightarrow> state \<Rightarrow> state" where
  "sched_setscheduler_nocheck p prio s =
     emit (SchedSetscheduler p prio)
       (s\<lparr>current := (current s)\<lparr>policy := word_of_int p, rt_priority := word_of_int prio\<rparr>\<rparr>)"

text \<open>
  The notifier chain, the clock driver and the mutex are outside the file: a call leaves
  its event, and the clock driver's return value is the one \<open>env\<close> gives. The update
  of \<open>policy->cur\<close> that the cpufreq core makes on a post-change notification is not
  part of this file. \<open>store_suspended\<close> is an assignment to \<open>device_suspended\<close>.
\<close>

definition cpufreq_notify_transition ::
  "nat \<Rightarrow> 32 word \<Rightarrow> 32 word \<Rightarrow> phase \<Rightarrow> state \<Rightarrow> state" where
  "cpufreq_notify_transition c old new ph s = emit (NotifyTransition c old new ph) s"

definition call_acpuclk_set_rate :: "env \<Rightarrow> nat \<Rightarrow> 32 word \<Rightarrow> state \<Rightarrow> int \<times> state" where
  "call_acpuclk_set_rate e c rate s =
     (let ret = acpuclk_set_rate e c rate in (ret, emit (AcpuclkSetRate c rate ret) s))"

definition mutex_lock :: "nat \<Rightarrow> state \<Rightarrow> state" where
  "mutex_lock c s = emit (MutexLock c) s"

definition mutex_unlock :: "nat \<Rightarrow> state \<Rightarrow> state" where
  "mutex_unlock c s = emit (MutexUnlock c) s"

definition store_suspended :: "nat \<Rightarrow> int \<Rightarrow> state \<Rightarrow> state" where
  "store_suspended c v s =
     emit (StoreSuspended c v)
       (s\<lparr>cpufreq_suspend := (cpufreq_suspend s)(c := (cpufreq_suspend s c)\<lparr>device_suspended := v\<rparr>)\<rparr>)"

subsection \<open>set_cpu_freq\<close>

definition set_cpu_freq :: "env \<Rightarrow> cpufreq_policy \<Rightarrow> 32 word \<Rightarrow> state \<Rightarrow> int \<times> state" where
  "set_cpu_freq e pol new_freq s =
     (let old = cur pol;
          new = new_freq;
          elevate = (old < new \<and> policy (current s) \<noteq> SCHED_FIFO);
          saved_sched_policy = (if elevate then sint (policy (current s)) else - EINVAL);
          saved_sched_rt_prio = (if elevate then sint (rt_priority (current s)) else - EINVAL);
          s1 = (if elevate then sched_setscheduler_nocheck (sint SCHED_FIFO) (MAX_RT_PRIO - 1) s
                else s);
          s2 = cpufreq_notify_transition (cpu pol) old new CPUFREQ_PRECHANGE s1;
          (ret, s3) = call_acpuclk_set_rate e (cpu pol) new_freq s2;
          s4 = (if ret = 0 then cpufreq_notify_transition (cpu pol) old new CPUFREQ_POSTCHANGE s3
                else s3);
          s5 = (if old < new \<and> 0 \<le> saved_sched_policy
                then sched_setscheduler_nocheck saved_sched_policy saved_sched_rt_prio s4
                else s4)
      in (ret, s5))"

subsection \<open>The work item and the workqueue\<close>

text \<open>
  Modelled from the spec: \<open>complete\<close> is not in the file; it fires the signal the
  caller waits for.
\<close>

definition complete :: "nat \<Rightarrow> state \<Rightarrow> state" where
  "complete c s =
     emit (Complete c)
       (s\<lparr>cpufreq_work := (cpufreq_work s)
            (c := (cpufreq_work s c)\<lparr>complete_done := Suc (complete_done (cpufreq_work s c))\<rparr>)\<rparr>)"

text \<open>
  \<open>set_cpu_work\<close> on the work item of core \<open>c\<close>. \<open>None\<close> is the dereference of a
  \<open>NULL\<close> policy pointer.
\<close>

definition set_cpu_work :: "env \<Rightarrow> nat \<Rightarrow> state \<Rightarrow> state option" where
  "set_cpu_work e c s =
     (case work_policy (cpufreq_work s c) of
        None \<Rightarrow> None
      | Some pol \<Rightarrow>
          (let (ret, s1) = set_cpu_freq e pol (frequency (cpufreq_work s c)) s;
               s2 = s1\<lparr>cpufreq_work := (cpufreq_work s1)(c := (cpufreq_work s1 c)\<lparr>status := ret\<rparr>)\<rparr>
           in Some (complete c s2)))"

text \<open>
  Modelled from the spec: \<open>cancel_work_sync\<close>, \<open>INIT_COMPLETION\<close> and
  \<open>queue_work_on\<close> are not in the file; the spec has them drain a pending item, reset
  the per-core signal and enqueue the item for the target core.
\<close>

definition cancel_work_sync :: "nat \<Rightarrow> state \<Rightarrow> state" where
  "cancel_work_sync c s =
     emit (CancelWorkSync c)
       (s\<lparr>cpufreq_work := (cpufreq_work s)(c := (cpufreq_work s c)\<lparr>work_pending := False\<rparr>)\<rparr>)"

definition INIT_COMPLETION :: "nat \<Rightarrow> state \<Rightarrow> state" where
  "INIT_COMPLETION c s =
     emit (InitCompletion c)
       (s\<lparr>cpufreq_work := (cpufreq_work s)(c := (cpufreq_work s c)\<lparr>complete_done := 0\<rparr>)\<rparr>)"

definition queue_work_on :: "nat \<Rightarrow> state \<Rightarrow> state" where
  "queue_work_on c s =
     emit (QueueWorkOn c)
       (s\<lparr>cpufreq_work := (cpufreq_work s)(c := (cpufreq_work s c)\<lparr>work_pending := True\<rparr>)\<rparr>)"

text \<open>
  Modelled from the spec: the workqueue is not in the file; the spec has the queued item
  run the executor on the target core's execution context. The worker task of core \<open>c\<close>
  becomes \<open>current\<close> while the item runs, and the caller is \<open>current\<close> again after it.
\<close>

definition process_one_work :: "env \<Rightarrow> nat \<Rightarrow> state \<Rightarrow> state option" where
  "process_one_work e c s =
     (let caller = current s;
          s1 = s\<lparr>cpufreq_work := (cpufreq_work s)(c := (cpufreq_work s c)\<lparr>work_pending := False\<rparr>),
                 current := kworker s c\<rparr>
      in case set_cpu_work e c s1 of
           None \<Rightarrow> None
         | Some s2 \<Rightarrow> Some (s2\<lparr>kworker := (kworker s2)(c := current s2), current := caller\<rparr>))"

text \<open>
  Modelled from the spec: the caller blocks until the completion fires. While it is
  blocked a queued item runs; \<open>None\<close> is a caller that is never woken (nothing queued
  and nothing completed).
\<close>

definition wait_for_completion :: "env \<Rightarrow> nat \<Rightarrow> state \<Rightarrow> state option" where
  "wait_for_completion e c s =
     (case (if complete_done (cpufreq_work s c) = 0 \<and> work_pending (cpufreq_work s c)
            then process_one_work e c s else Some s) of
        None \<Rightarrow> None
      | Some s1 \<Rightarrow>
          if complete_done (cpufreq_work s1 c) = 0 then None
          else Some (emit (WaitForCompletion c)
                 (s1\<lparr>cpufreq_work := (cpufreq_work s1)
                      (c := (cpufreq_work s1 c)\<lparr>complete_done := complete_done (cpufreq_work s1 c) - 1\<rparr>)\<rparr>)))"

subsection \<open>The frequency table\<close>

text \<open>
  The scan behind the resolver below: \<open>satisfies\<close> is the rounding direction of a
  relation, \<open>nearer\<close> the order in which an entry beats the best one so far;
  \<open>table_scan\<close> walks the table once and keeps the first of the nearest entries.
\<close>

fun satisfies :: "relation \<Rightarrow> 32 word \<Rightarrow> 32 word \<Rightarrow> bool" where
  "satisfies CPUFREQ_RELATION_H f target = (f \<le> target)"
| "satisfies CPUFREQ_RELATION_L f target = (target \<le> f)"

fun nearer :: "relation \<Rightarrow> 32 word \<Rightarrow> 32 word \<Rightarrow> bool" where
  "nearer CPUFREQ_RELATION_H f best = (best < f)"
| "nearer CPUFREQ_RELATION_L f best = (f < best)"

fun table_scan ::
  "relation \<Rightarrow> 32 word \<Rightarrow> 32 word list \<Rightarrow> nat \<Rightarrow> (nat \<times> 32 word) option \<Rightarrow> (nat \<times> 32 word) option" where
  "table_scan r target [] i best = best"
| "table_scan r target (f # fs) i best =
     table_scan r target fs (Suc i)
       (if satisfies r f target \<and> (case best of None \<Rightarrow> True | Some (j, b) \<Rightarrow> nearer r f b)
        then Some (i, f) else best)"

text \<open>
  Modelled from the spec: \<open>cpufreq_frequency_table_target\<close> is not in the file. The
  spec's resolver rounds down to the nearest entry at or below the target, or up to the
  nearest entry at or above it, and fails if no entry satisfies the relation.
  \<open>CPUFREQ_RELATION_H\<close> is the highest frequency at or below the target (round down),
  \<open>CPUFREQ_RELATION_L\<close> the lowest at or above it (round up). The result is the index
  of the entry, \<open>None\<close> a non-zero return.
\<close>

definition cpufreq_frequency_table_target ::
  "cpufreq_policy \<Rightarrow> 32 word list \<Rightarrow> 32 word \<Rightarrow> relation \<Rightarrow> nat option" where
  "cpufreq_frequency_table_target pol table target_freq r =
     map_option fst (table_scan r target_freq table 0 None)"

subsection \<open>msm_cpufreq_target\<close>

text \<open>
  The result is the return value and the state; \<open>None\<close> is a call that does not return
  (a \<open>NULL\<close> table or policy dereferenced, a caller never woken). \<open>goto_done\<close> is the code
  at the label \<open>done\<close>; the mask is a local and leaves no trace.
\<close>

definition goto_done :: "nat \<Rightarrow> int \<Rightarrow> state \<Rightarrow> (int \<times> state) option" where
  "goto_done c ret s = Some (ret, mutex_unlock c s)"

definition msm_cpufreq_target ::
  "env \<Rightarrow> cpufreq_policy \<Rightarrow> 32 word \<Rightarrow> relation \<Rightarrow> state \<Rightarrow> (int \<times> state) option" where
  "msm_cpufreq_target e pol target_freq r s =
     (let c = cpu pol in
      if \<not> cpu_active e c then Some (- ENODEV, s)
      else if \<not> alloc_cpumask_var e then Some (- ENOMEM, s)
      else
        let s1 = mutex_lock c s in
        if device_suspended (cpufreq_suspend s1 c) \<noteq> 0 then goto_done c (- EFAULT) s1
        else
          case cpufreq_frequency_get_table e c of
            None \<Rightarrow> None
          | Some table \<Rightarrow>
              (case cpufreq_frequency_table_target pol table target_freq r of
                 None \<Rightarrow> goto_done c (- EINVAL) s1
               | Some index \<Rightarrow>
                   let cpu_work = (cpufreq_work s1 c)
                         \<lparr>work_policy := Some pol, frequency := table ! index, status := - ENODEV\<rparr>;
                       s2 = s1\<lparr>cpufreq_work := (cpufreq_work s1)(c := cpu_work)\<rparr>;
                       mask = insert c {}
                   in
                   if mask = cpus_allowed (current s2) then
                     (case work_policy cpu_work of
                        None \<Rightarrow> None
                      | Some p \<Rightarrow>
                          let (ret, s3) = set_cpu_freq e p (frequency cpu_work) s2
                          in goto_done c ret s3)
                   else
                     let s3 = cancel_work_sync c s2;
                         s4 = INIT_COMPLETION c s3;
                         s5 = queue_work_on c s4
                     in (case wait_for_completion e c s5 of
                           None \<Rightarrow> None
                         | Some s6 \<Rightarrow> goto_done c (status (cpufreq_work s6 c)) s6)))"

subsection \<open>msm_cpufreq_init\<close>

text \<open>
  The result is the return value, the policy as the call leaves it, and the state. The
  local \<open>cur_freq\<close> is an \<open>int\<close> in C that carries the \<open>unsigned\<close> rate unchanged to
  \<open>unsigned\<close> uses. The statements on \<open>cpus\<close>, \<open>cpuinfo\<close>, \<open>min\<close>, \<open>max\<close> and the
  transition latency write policy fields that are not part of \<open>cpufreq_policy\<close> here.
  \<open>init_work\<close> is \<open>INIT_WORK\<close> followed by \<open>init_completion\<close>.
\<close>

definition init_work :: "nat \<Rightarrow> state \<Rightarrow> state" where
  "init_work c s =
     s\<lparr>cpufreq_work := (cpufreq_work s)
          (c := (cpufreq_work s c)\<lparr>work_pending := False, complete_done := 0\<rparr>)\<rparr>"

definition msm_cpufreq_init ::
  "env \<Rightarrow> cpufreq_policy \<Rightarrow> state \<Rightarrow> int \<times> cpufreq_policy \<times> state" where
  "msm_cpufreq_init e pol s =
     (case cpufreq_frequency_get_table e (cpu pol) of
        None \<Rightarrow> (- ENODEV, pol, s)
      | Some table \<Rightarrow>
          let cur_freq = acpuclk_get_rate e (cpu pol) in
          (case (case cpufreq_frequency_table_target pol table cur_freq CPUFREQ_RELATION_H of
                   Some index \<Rightarrow> Some index
                 | None \<Rightarrow> cpufreq_frequency_table_target pol table cur_freq CPUFREQ_RELATION_L) of
             None \<Rightarrow> (- EINVAL, pol, s)
           | Some index \<Rightarrow>
               if cur_freq \<noteq> table ! index then
                 let (ret, s1) = call_acpuclk_set_rate e (cpu pol) (table ! index) s in
                 if ret \<noteq> 0 then (ret, pol, s1)
                 else (0, pol\<lparr>cur := table ! index\<rparr>, init_work (cpu pol) s1)
               else (0, pol\<lparr>cur := cur_freq\<rparr>, init_work (cpu pol) s)))"

subsection \<open>Hotplug, suspend and resume\<close>

definition msm_cpufreq_cpu_callback :: "32 word \<Rightarrow> nat \<Rightarrow> state \<Rightarrow> int \<times> state" where
  "msm_cpufreq_cpu_callback action c s =
     (NOTIFY_OK,
      if action = CPU_ONLINE \<or> action = CPU_ONLINE_FROZEN then store_suspended c 0 s
      else if action = CPU_DOWN_PREPARE \<or> action = CPU_DOWN_PREPARE_FROZEN
        then mutex_unlock c (store_suspended c 1 (mutex_lock c s))
      else if action = CPU_DOWN_FAILED \<or> action = CPU_DOWN_FAILED_FROZEN then store_suspended c 0 s
      else s)"

definition msm_cpufreq_suspend :: "env \<Rightarrow> cpufreq_policy \<Rightarrow> state \<Rightarrow> int \<times> state" where
  "msm_cpufreq_suspend e pol s = (0, fold (\<lambda>c. store_suspended c 1) (possible_cpus e) s)"

definition msm_cpufreq_resume :: "env \<Rightarrow> cpufreq_policy \<Rightarrow> state \<Rightarrow> int \<times> state" where
  "msm_cpufreq_resume e pol s = (0, fold (\<lambda>c. store_suspended c 0) (possible_cpus e) s)"

subsection \<open>Reading a trace\<close>

text \<open>
  \<open>stores_locked held evs\<close>: every store to a core's \<open>device_suspended\<close> in \<open>evs\<close> is
  made while that core's suspend mutex is held, \<open>held\<close> being the cores whose mutex is
  held when \<open>evs\<close> starts.
\<close>

fun stores_locked :: "nat set \<Rightarrow> event list \<Rightarrow> bool" where
  "stores_locked held [] = True"
| "stores_locked held (MutexLock c # evs) = stores_locked (insert c held) evs"
| "stores_locked held (MutexUnlock c # evs) = stores_locked (held - {c}) evs"
| "stores_locked held (StoreSuspended c v # evs) = (c \<in> held \<and> stores_locked held evs)"
| "stores_locked held (ev # evs) = stores_locked held evs"

fun is_set_rate :: "event \<Rightarrow> bool" where
  "is_set_rate (AcpuclkSetRate c f r) = True"
| "is_set_rate ev = False"

fun is_notify :: "event \<Rightarrow> bool" where
  "is_notify (NotifyTransition c old new ph) = True"
| "is_notify ev = False"

fun is_sched :: "event \<Rightarrow> bool" where
  "is_sched (SchedSetscheduler p prio) = True"
| "is_sched ev = False"

fun is_workqueue :: "event \<Rightarrow> bool" where
  "is_workqueue (CancelWorkSync c) = True"
| "is_workqueue (InitCompletion c) = True"
| "is_workqueue (QueueWorkOn c) = True"
| "is_workqueue (Complete c) = True"
| "is_workqueue (WaitForCompletion c) = True"
| "is_workqueue ev = False"

subsection \<open>A two-core system\<close>

text \<open>
  The table of the spec's scenario, 300, 600 and 900, with core 0 running at 600 and a
  caller of the normal scheduling class that may run on both cores.
\<close>

definition task0 :: task_struct where
  "task0 = \<lparr>policy = 0, rt_priority = 0, cpus_allowed = {0, 1}\<rparr>"

definition work0 :: cpufreq_work_struct where
  "work0 = \<lparr>work_pending = False, work_policy = None, complete_done = 0, frequency = 0, status = 0\<rparr>"

definition s0 :: state where
  "s0 = \<lparr>cpufreq_work = (\<lambda>c. work0), cpufreq_suspend = (\<lambda>c. \<lparr>device_suspended = 0\<rparr>),
         current = task0, kworker = (\<lambda>c. task0), trace = []\<rparr>"

definition env0 :: env where
  "env0 = \<lparr>cpu_active = (\<lambda>c. True), alloc_cpumask_var = True,
           cpufreq_frequency_get_table = (\<lambda>c. Some [300, 600, 900]),
           acpuclk_set_rate = (\<lambda>c f. 0), acpuclk_get_rate = (\<lambda>c. 600),
           possible_cpus = [0, 1]\<rparr>"

definition pol0 :: cpufreq_policy where
  "pol0 = \<lparr>cpu = 0, cur = 600\<rparr>"

text \<open>The clock of core 0 found at 750, between two entries of the table.\<close>

definition env750 :: env where
  "env750 = env0\<lparr>acpuclk_get_rate := (\<lambda>c. 750)\<rparr>"

text \<open>The same with a clock driver that refuses every change.\<close>

definition env_fail :: env where
  "env_fail = env750\<lparr>acpuclk_set_rate := (\<lambda>c f. - 5)\<rparr>"

text \<open>No table registered for any core, and a table without entries.\<close>

definition env_no_table :: env where
  "env_no_table = env0\<lparr>cpufreq_frequency_get_table := (\<lambda>c. None)\<rparr>"

definition env_empty_table :: env where
  "env_empty_table = env0\<lparr>cpufreq_frequency_get_table := (\<lambda>c. Some [])\<rparr>"

text \<open>A caller that is already in the \<open>SCHED_FIFO\<close> class, bound to core 0.\<close>

definition task_fifo :: task_struct where
  "task_fifo = \<lparr>policy = SCHED_FIFO, rt_priority = 10, cpus_allowed = {0}\<rparr>"

text \<open>Core 0 on its way down: the hotplug callback has run and the core is not active.\<close>

definition env_down :: env where
  "env_down = env0\<lparr>cpu_active := (\<lambda>c. c \<noteq> 0)\<rparr>"

definition s_down :: state where
  "s_down = snd (msm_cpufreq_cpu_callback CPU_DOWN_PREPARE 0 s0)"

section \<open>Properties\<close>

subsection \<open>Unfolding\<close>

lemmas constant_defs = ENOMEM_def EFAULT_def ENODEV_def EINVAL_def SCHED_FIFO_def MAX_RT_PRIO_def
  NOTIFY_OK_def

lemmas action_defs = CPU_ONLINE_def CPU_ONLINE_FROZEN_def CPU_DOWN_PREPARE_def
  CPU_DOWN_PREPARE_FROZEN_def CPU_DOWN_FAILED_def CPU_DOWN_FAILED_FROZEN_def CPU_TASKS_FROZEN_def

lemmas primitive_defs = emit_def mutex_lock_def mutex_unlock_def store_suspended_def
  sched_setscheduler_nocheck_def cpufreq_notify_transition_def call_acpuclk_set_rate_def

lemmas scenario_defs = task0_def work0_def s0_def env0_def pol0_def env_down_def s_down_def
  task_fifo_def env750_def env_fail_def env_no_table_def env_empty_table_def

subsection \<open>The executor's events and frame\<close>

lemma set_cpu_freq_ret: "fst (set_cpu_freq e pol new s) = acpuclk_set_rate e (cpu pol) new"
  by (simp add: set_cpu_freq_def primitive_defs Let_def)

lemma set_cpu_freq_emitted:
  "emitted s (snd (set_cpu_freq e pol new s)) =
     (if cur pol < new \<and> policy (current s) \<noteq> SCHED_FIFO
      then [SchedSetscheduler (sint SCHED_FIFO) (MAX_RT_PRIO - 1)] else []) @
     [NotifyTransition (cpu pol) (cur pol) new CPUFREQ_PRECHANGE,
      AcpuclkSetRate (cpu pol) new (acpuclk_set_rate e (cpu pol) new)] @
     (if acpuclk_set_rate e (cpu pol) new = 0
      then [NotifyTransition (cpu pol) (cur pol) new CPUFREQ_POSTCHANGE] else []) @
     (if cur pol < new \<and> policy (current s) \<noteq> SCHED_FIFO \<and> 0 \<le> sint (policy (current s))
      then [SchedSetscheduler (sint (policy (current s))) (sint (rt_priority (current s)))] else [])"
  by (simp add: set_cpu_freq_def primitive_defs emitted_def Let_def EINVAL_def)

lemma set_cpu_freq_current:
  "current (snd (set_cpu_freq e pol new s)) =
     (if cur pol < new \<and> policy (current s) \<noteq> SCHED_FIFO \<and> sint (policy (current s)) < 0
      then (current s)\<lparr>policy := SCHED_FIFO, rt_priority := word_of_int (MAX_RT_PRIO - 1)\<rparr>
      else current s)"
  by (simp add: set_cpu_freq_def primitive_defs Let_def EINVAL_def SCHED_FIFO_def)

lemma set_cpu_freq_frame:
  "cpufreq_work (snd (set_cpu_freq e pol new s)) = cpufreq_work s"
  "cpufreq_suspend (snd (set_cpu_freq e pol new s)) = cpufreq_suspend s"
  "kworker (snd (set_cpu_freq e pol new s)) = kworker s"
  by (simp_all add: set_cpu_freq_def primitive_defs Let_def)

lemma set_cpu_freq_trace:
  "trace (snd (set_cpu_freq e pol new s)) = trace s @ emitted s (snd (set_cpu_freq e pol new s))"
  by (simp add: set_cpu_freq_def primitive_defs emitted_def Let_def)

subsection \<open>The lifecycle handlers' events\<close>

lemma fold_store_suspended_trace:
  "trace (fold (\<lambda>c. store_suspended c v) cs s) = trace s @ map (\<lambda>c. StoreSuspended c v) cs"
  by (induction cs arbitrary: s) (simp_all add: store_suspended_def emit_def)

lemma stores_locked_map_store:
  "stores_locked {} (map (\<lambda>c. StoreSuspended c v) cs) \<longleftrightarrow> cs = []"
  by (cases cs) simp_all

lemma callback_emitted:
  "emitted s (snd (msm_cpufreq_cpu_callback action c s)) =
     (if action \<in> {CPU_ONLINE, CPU_ONLINE_FROZEN, CPU_DOWN_FAILED, CPU_DOWN_FAILED_FROZEN}
      then [StoreSuspended c 0]
      else if action \<in> {CPU_DOWN_PREPARE, CPU_DOWN_PREPARE_FROZEN}
      then [MutexLock c, StoreSuspended c 1, MutexUnlock c]
      else [])"
  by (simp add: msm_cpufreq_cpu_callback_def primitive_defs emitted_def action_defs)

subsection \<open>The resolver\<close>

lemma table_scan_None:
  "table_scan r t fs i best = None \<longleftrightarrow> best = None \<and> (\<forall>f \<in> set fs. \<not> satisfies r f t)"
  by (induction fs arbitrary: i best) auto

lemma table_scan_index:
  "table_scan r t fs i best = Some (j, g) \<Longrightarrow>
   best = Some (j, g) \<or> (i \<le> j \<and> j < i + length fs \<and> fs ! (j - i) = g)"
proof (induction fs arbitrary: i best)
  case Nil
  then show ?case by simp
next
  case (Cons f fs)
  from Cons.prems Cons.IH [of "Suc i"] show ?case
    by (fastforce split: if_splits simp: nth_Cons')
qed

lemma table_scan_satisfies:
  "table_scan r t fs i best = Some (j, g) \<Longrightarrow>
   (\<And>k b. best = Some (k, b) \<Longrightarrow> satisfies r b t) \<Longrightarrow> satisfies r g t"
proof (induction fs arbitrary: i best)
  case Nil
  then show ?case by simp
next
  case (Cons f fs)
  then show ?case by (auto split: if_splits)
qed

lemma table_scan_nearest:
  "table_scan r t fs i best = Some (j, g) \<Longrightarrow>
   (\<forall>f \<in> set fs. satisfies r f t \<longrightarrow> \<not> nearer r f g) \<and>
   (\<forall>k b. best = Some (k, b) \<longrightarrow> \<not> nearer r b g)"
proof (induction fs arbitrary: i best)
  case Nil
  then show ?case by (cases r) auto
next
  case (Cons f fs)
  let ?best' = "if satisfies r f t \<and> (case best of None \<Rightarrow> True | Some (j, b) \<Rightarrow> nearer r f b)
        then Some (i, f) else best"
  from Cons.prems have scan: "table_scan r t fs (Suc i) ?best' = Some (j, g)" by simp
  from Cons.IH [OF scan] have tl: "\<forall>f \<in> set fs. satisfies r f t \<longrightarrow> \<not> nearer r f g"
    and bst: "\<forall>k b. ?best' = Some (k, b) \<longrightarrow> \<not> nearer r b g" by blast+
  have hd: "satisfies r f t \<longrightarrow> \<not> nearer r f g"
    using bst by (cases best; cases r) (auto split: if_splits)
  have old: "\<forall>k b. best = Some (k, b) \<longrightarrow> \<not> nearer r b g"
    using bst by (cases r) (auto split: if_splits)
  from tl hd old show ?case by simp
qed

lemma table_target_None:
  "cpufreq_frequency_table_target pol table t r = None \<longleftrightarrow> (\<forall>f \<in> set table. \<not> satisfies r f t)"
  by (simp add: cpufreq_frequency_table_target_def table_scan_None)

lemma table_target_Some:
  assumes "cpufreq_frequency_table_target pol table t r = Some i"
  shows "i < length table" and "satisfies r (table ! i) t"
    and "\<forall>f \<in> set table. satisfies r f t \<longrightarrow> \<not> nearer r f (table ! i)"
proof -
  from assms obtain g where scan: "table_scan r t table 0 None = Some (i, g)"
    by (auto simp: cpufreq_frequency_table_target_def)
  from table_scan_index [OF scan] have len: "i < length table" and g: "table ! i = g" by simp_all
  from len show "i < length table" .
  from table_scan_satisfies [OF scan] g show "satisfies r (table ! i) t" by simp
  from table_scan_nearest [OF scan] g
  show "\<forall>f \<in> set table. satisfies r f t \<longrightarrow> \<not> nearer r f (table ! i)" by simp
qed

lemma table_target_H:
  assumes "cpufreq_frequency_table_target pol table t CPUFREQ_RELATION_H = Some i"
  shows "i < length table \<and> table ! i \<le> t \<and> (\<forall>f \<in> set table. f \<le> t \<longrightarrow> f \<le> table ! i)"
  using table_target_Some [OF assms] by (auto simp: not_less)

lemma table_target_L:
  assumes "cpufreq_frequency_table_target pol table t CPUFREQ_RELATION_L = Some i"
  shows "i < length table \<and> t \<le> table ! i \<and> (\<forall>f \<in> set table. t \<le> f \<longrightarrow> table ! i \<le> f)"
  using table_target_Some [OF assms] by (auto simp: not_less)

subsection \<open>The outcome of msm_cpufreq_init\<close>

lemma msm_cpufreq_init_index:
  assumes tbl: "cpufreq_frequency_get_table e (cpu pol) = Some table"
    and res: "cpufreq_frequency_table_target pol table (acpuclk_get_rate e (cpu pol)) CPUFREQ_RELATION_H
         = Some index \<or>
       cpufreq_frequency_table_target pol table (acpuclk_get_rate e (cpu pol)) CPUFREQ_RELATION_H
         = None \<and>
       cpufreq_frequency_table_target pol table (acpuclk_get_rate e (cpu pol)) CPUFREQ_RELATION_L
         = Some index"
  shows "msm_cpufreq_init e pol s =
     (if table ! index = acpuclk_get_rate e (cpu pol)
      then (0, pol\<lparr>cur := table ! index\<rparr>, init_work (cpu pol) s)
      else if acpuclk_set_rate e (cpu pol) (table ! index) \<noteq> 0
      then (acpuclk_set_rate e (cpu pol) (table ! index), pol,
            emit (AcpuclkSetRate (cpu pol) (table ! index)
                   (acpuclk_set_rate e (cpu pol) (table ! index))) s)
      else (0, pol\<lparr>cur := table ! index\<rparr>,
            init_work (cpu pol) (emit (AcpuclkSetRate (cpu pol) (table ! index) 0) s)))"
proof -
  from res have sel: "(case cpufreq_frequency_table_target pol table (acpuclk_get_rate e (cpu pol))
                 CPUFREQ_RELATION_H of
            Some index \<Rightarrow> Some index
          | None \<Rightarrow> cpufreq_frequency_table_target pol table (acpuclk_get_rate e (cpu pol))
                 CPUFREQ_RELATION_L) = Some index"
    by auto
  show ?thesis
    by (simp add: msm_cpufreq_init_def tbl sel Let_def call_acpuclk_set_rate_def)
qed

lemma init_work_trace: "trace (init_work c s) = trace s"
  by (simp add: init_work_def)

subsection \<open>The work item on the worker\<close>

lemma set_cpu_freq_no_workqueue:
  "\<forall>ev \<in> set (emitted s (snd (set_cpu_freq e pol new s))). \<not> is_workqueue ev"
  by (auto simp add: set_cpu_freq_emitted)

lemma set_cpu_work_Some:
  assumes "work_policy (cpufreq_work s c) = Some pol"
  shows "set_cpu_work e c s =
     Some (let r = set_cpu_freq e pol (frequency (cpufreq_work s c)) s in
           (snd r)\<lparr>cpufreq_work := (cpufreq_work s)
                      (c := (cpufreq_work s c)\<lparr>status := fst r,
                                                 complete_done := Suc (complete_done (cpufreq_work s c))\<rparr>),
                    trace := trace (snd r) @ [Complete c]\<rparr>)"
  using assms
  by (simp add: set_cpu_work_def complete_def emit_def case_prod_beta Let_def set_cpu_freq_frame)

lemma process_one_work_Some:
  assumes "work_policy (cpufreq_work s c) = Some pol"
  shows "process_one_work e c s =
     Some (let sw = s\<lparr>cpufreq_work := (cpufreq_work s)(c := (cpufreq_work s c)\<lparr>work_pending := False\<rparr>),
                      current := kworker s c\<rparr>;
               r = set_cpu_freq e pol (frequency (cpufreq_work s c)) sw in
           (snd r)\<lparr>cpufreq_work := (cpufreq_work s)
                      (c := (cpufreq_work s c)\<lparr>work_pending := False, status := fst r,
                                                 complete_done := Suc (complete_done (cpufreq_work s c))\<rparr>),
                    kworker := (kworker s)(c := current (snd r)),
                    current := current s,
                    trace := trace (snd r) @ [Complete c]\<rparr>)"
  using assms
  by (simp add: process_one_work_def set_cpu_work_Some [where pol = pol] Let_def set_cpu_freq_frame)

lemma wait_for_completion_queued:
  assumes "work_policy (cpufreq_work s c) = Some pol"
    and "complete_done (cpufreq_work s c) = 0" and "work_pending (cpufreq_work s c)"
  shows "wait_for_completion e c s =
     Some (let sw = s\<lparr>cpufreq_work := (cpufreq_work s)(c := (cpufreq_work s c)\<lparr>work_pending := False\<rparr>),
                      current := kworker s c\<rparr>;
               r = set_cpu_freq e pol (frequency (cpufreq_work s c)) sw in
           (snd r)\<lparr>cpufreq_work := (cpufreq_work s)
                      (c := (cpufreq_work s c)\<lparr>work_pending := False, status := fst r,
                                                 complete_done := 0\<rparr>),
                    kworker := (kworker s)(c := current (snd r)),
                    current := current s,
                    trace := trace (snd r) @ [Complete c, WaitForCompletion c]\<rparr>)"
  using assms
  by (simp add: wait_for_completion_def process_one_work_Some [where pol = pol] Let_def emit_def)

lemma set_cpu_freq_local:
  assumes "current s = current t"
  shows "fst (set_cpu_freq e pol new s) = fst (set_cpu_freq e pol new t)"
    and "emitted s (snd (set_cpu_freq e pol new s)) = emitted t (snd (set_cpu_freq e pol new t))"
    and "current (snd (set_cpu_freq e pol new s)) = current (snd (set_cpu_freq e pol new t))"
  using assms by (simp_all add: set_cpu_freq_ret set_cpu_freq_emitted set_cpu_freq_current)

lemma emitted_append: "trace s' = trace s @ evs \<Longrightarrow> emitted s s' = evs"
  by (simp add: emitted_def)

subsection \<open>The claims\<close>

text \<open>
  C1, amended. On a core whose \<open>device_suspended\<close> flag is set, a call of
  \<open>msm_cpufreq_target\<close> returns and never calls \<open>acpuclk_set_rate\<close>; it leaves the
  work slots, the flags and the calling task as they were. It returns \<open>-EFAULT\<close>
  when the core is active and the mask could be allocated; an inactive core gives
  \<open>-ENODEV\<close> and a failed allocation \<open>-ENOMEM\<close>, both before the flag is read.
\<close>

theorem target_suspended:
  assumes "device_suspended (cpufreq_suspend s (cpu pol)) \<noteq> 0"
  shows "\<exists>ret s'. msm_cpufreq_target e pol target_freq r s = Some (ret, s') \<and>
           ret = (if \<not> cpu_active e (cpu pol) then - ENODEV
                  else if \<not> alloc_cpumask_var e then - ENOMEM else - EFAULT) \<and>
           (\<forall>ev \<in> set (emitted s s'). \<not> is_set_rate ev) \<and>
           cpufreq_work s' = cpufreq_work s \<and> cpufreq_suspend s' = cpufreq_suspend s \<and>
           current s' = current s"
  using assms
  by (simp add: msm_cpufreq_target_def goto_done_def mutex_lock_def mutex_unlock_def emit_def
        emitted_def Let_def)

theorem target_suspended_witness:
  "device_suspended (cpufreq_suspend s_down (cpu pol0)) \<noteq> 0 \<and>
   msm_cpufreq_target env0 pol0 750 CPUFREQ_RELATION_L s_down
     = Some (- EFAULT, s_down\<lparr>trace := trace s_down @ [MutexLock 0, MutexUnlock 0]\<rparr>)"
  using target_suspended [of s_down pol0 env0 750 CPUFREQ_RELATION_L]
  by (simp add: s_down_def msm_cpufreq_cpu_callback_def primitive_defs action_defs pol0_def
        env0_def s0_def msm_cpufreq_target_def goto_done_def)

text \<open>
  The claim as stated fails on a core that is suspended and no longer active, the state
  a core is in after \<open>CPU_DOWN_PREPARE\<close>: the call returns \<open>-ENODEV\<close>, not \<open>-EFAULT\<close>.
\<close>

theorem target_suspended_counterexample:
  "device_suspended (cpufreq_suspend s_down (cpu pol0)) \<noteq> 0 \<and>
   msm_cpufreq_target env_down pol0 750 CPUFREQ_RELATION_L s_down = Some (- ENODEV, s_down) \<and>
   - ENODEV \<noteq> - EFAULT"
  by (simp add: s_down_def msm_cpufreq_cpu_callback_def primitive_defs action_defs pol0_def
        env0_def env_down_def msm_cpufreq_target_def ENODEV_def EFAULT_def)

text \<open>
  C2, amended. \<open>set_cpu_freq\<close> calls the scheduler if and only if the new frequency
  is above the old one and the calling task is not in the \<open>SCHED_FIFO\<close> class
  already. Then its first call switches the task to \<open>SCHED_FIFO\<close> at priority
  \<open>MAX_RT_PRIO - 1\<close>, before the clock is set; otherwise it makes no scheduler call at
  all and leaves the task as it was. The scheduler calls of a run are exactly the
  elevation and, for a task whose class value is not negative as an \<open>int\<close> (every
  scheduling class of the kernel), the call that puts the saved class and priority back.
  For such a task the restoring call is the last call, it comes after the clock was set,
  and the task is the same after the run as before it, whatever \<open>acpuclk_set_rate\<close>
  returns.
\<close>

theorem executor_priority:
  "((\<exists>rest. emitted s (snd (set_cpu_freq e pol new s)) =
        SchedSetscheduler (sint SCHED_FIFO) (MAX_RT_PRIO - 1) # rest)
      \<longleftrightarrow> cur pol < new \<and> policy (current s) \<noteq> SCHED_FIFO) \<and>
   ((\<exists>ev \<in> set (emitted s (snd (set_cpu_freq e pol new s))). is_sched ev)
      \<longleftrightarrow> cur pol < new \<and> policy (current s) \<noteq> SCHED_FIFO) \<and>
   filter is_sched (emitted s (snd (set_cpu_freq e pol new s))) =
     (if cur pol < new \<and> policy (current s) \<noteq> SCHED_FIFO
      then SchedSetscheduler (sint SCHED_FIFO) (MAX_RT_PRIO - 1) #
           (if 0 \<le> sint (policy (current s))
            then [SchedSetscheduler (sint (policy (current s))) (sint (rt_priority (current s)))]
            else [])
      else []) \<and>
   (\<not> (cur pol < new \<and> policy (current s) \<noteq> SCHED_FIFO) \<longrightarrow>
      current (snd (set_cpu_freq e pol new s)) = current s) \<and>
   (cur pol < new \<and> policy (current s) \<noteq> SCHED_FIFO \<longrightarrow>
      (\<exists>rest. emitted s (snd (set_cpu_freq e pol new s)) =
         SchedSetscheduler (sint SCHED_FIFO) (MAX_RT_PRIO - 1) # rest \<and>
         AcpuclkSetRate (cpu pol) new (fst (set_cpu_freq e pol new s)) \<in> set rest)) \<and>
   (0 \<le> sint (policy (current s)) \<longrightarrow>
      current (snd (set_cpu_freq e pol new s)) = current s \<and>
      (cur pol < new \<and> policy (current s) \<noteq> SCHED_FIFO \<longrightarrow>
         (\<exists>mid. emitted s (snd (set_cpu_freq e pol new s)) =
            SchedSetscheduler (sint SCHED_FIFO) (MAX_RT_PRIO - 1) # mid @
            [SchedSetscheduler (sint (policy (current s))) (sint (rt_priority (current s)))] \<and>
            AcpuclkSetRate (cpu pol) new (fst (set_cpu_freq e pol new s)) \<in> set mid \<and>
            (\<forall>ev \<in> set mid. \<not> is_sched ev))))"
proof -
  let ?evs = "emitted s (snd (set_cpu_freq e pol new s))"
  let ?cond = "cur pol < new \<and> policy (current s) \<noteq> SCHED_FIFO"
  let ?up = "SchedSetscheduler (sint SCHED_FIFO) (MAX_RT_PRIO - 1)"
  have first: "(\<exists>rest. ?evs = ?up # rest) \<longleftrightarrow> ?cond"
    by (simp add: set_cpu_freq_emitted)
  have any: "(\<exists>ev \<in> set ?evs. is_sched ev) \<longleftrightarrow> ?cond"
    by (auto simp add: set_cpu_freq_emitted)
  have all: "filter is_sched ?evs =
     (if ?cond
      then ?up #
           (if 0 \<le> sint (policy (current s))
            then [SchedSetscheduler (sint (policy (current s))) (sint (rt_priority (current s)))]
            else [])
      else [])"
    by (simp add: set_cpu_freq_emitted)
  have same: "\<not> ?cond \<longrightarrow> current (snd (set_cpu_freq e pol new s)) = current s"
    by (simp add: set_cpu_freq_current)
  have before: "?cond \<longrightarrow>
      (\<exists>rest. ?evs = ?up # rest \<and>
         AcpuclkSetRate (cpu pol) new (fst (set_cpu_freq e pol new s)) \<in> set rest)"
    by (simp add: set_cpu_freq_emitted set_cpu_freq_ret)
  have restore: "0 \<le> sint (policy (current s)) \<longrightarrow>
      current (snd (set_cpu_freq e pol new s)) = current s \<and>
      (?cond \<longrightarrow>
         (\<exists>mid. ?evs = ?up # mid @
            [SchedSetscheduler (sint (policy (current s))) (sint (rt_priority (current s)))] \<and>
            AcpuclkSetRate (cpu pol) new (fst (set_cpu_freq e pol new s)) \<in> set mid \<and>
            (\<forall>ev \<in> set mid. \<not> is_sched ev)))"
    by (simp add: set_cpu_freq_emitted set_cpu_freq_current set_cpu_freq_ret)
  from first any all same before restore show ?thesis
    by (intro conjI)
qed

theorem executor_priority_witness:
  "cur pol0 < 900 \<and> policy (current s0) \<noteq> SCHED_FIFO \<and> 0 \<le> sint (policy (current s0)) \<and>
   current (snd (set_cpu_freq env_fail pol0 900 s0)) = current s0 \<and>
   emitted s0 (snd (set_cpu_freq env_fail pol0 900 s0)) =
     [SchedSetscheduler 1 99, NotifyTransition 0 600 900 CPUFREQ_PRECHANGE,
      AcpuclkSetRate 0 900 (- 5), SchedSetscheduler 0 0] \<and>
   \<not> cur pol0 < 300 \<and>
   current (snd (set_cpu_freq env0 pol0 300 s0)) = current s0 \<and>
   filter is_sched (emitted s0 (snd (set_cpu_freq env0 pol0 300 s0))) = [] \<and>
   emitted s0 (snd (set_cpu_freq env0 pol0 300 s0)) =
     [NotifyTransition 0 600 300 CPUFREQ_PRECHANGE, AcpuclkSetRate 0 300 0,
      NotifyTransition 0 600 300 CPUFREQ_POSTCHANGE]"
  using executor_priority [of s0 env_fail pol0 900] executor_priority [of s0 env0 pol0 300]
  by (simp add: set_cpu_freq_emitted set_cpu_freq_ret scenario_defs constant_defs)

text \<open>
  The claim as stated fails for a caller that is in the \<open>SCHED_FIFO\<close> class at
  priority 10: the frequency goes up from 600 to 900, nothing touches the scheduler and
  the priority stays 10.
\<close>

theorem executor_priority_counterexample:
  "cur pol0 < 900 \<and>
   emitted (s0\<lparr>current := task_fifo\<rparr>) (snd (set_cpu_freq env0 pol0 900 (s0\<lparr>current := task_fifo\<rparr>))) =
     [NotifyTransition 0 600 900 CPUFREQ_PRECHANGE, AcpuclkSetRate 0 900 0,
      NotifyTransition 0 600 900 CPUFREQ_POSTCHANGE] \<and>
   rt_priority (current (snd (set_cpu_freq env0 pol0 900 (s0\<lparr>current := task_fifo\<rparr>)))) = 10"
  by (simp add: set_cpu_freq_emitted set_cpu_freq_current scenario_defs task_fifo_def)

text \<open>
  C3. Let the core be active, the mask allocated, the core not suspended and the target
  resolved to \<open>table ! index\<close>. Then \<open>msm_cpufreq_target\<close> returns. If the
  caller's \<open>cpus_allowed\<close> is exactly the target core, \<open>set_cpu_freq\<close> runs with
  the caller as \<open>current\<close> between the lock and the unlock of the suspend mutex, its
  return value is the result, and no workqueue or completion call is made. Otherwise
  the calls are, in this order: lock, \<open>cancel_work_sync\<close>, \<open>INIT_COMPLETION\<close>,
  \<open>queue_work_on\<close>, the events of \<open>set_cpu_freq\<close> run with the core's worker as
  \<open>current\<close>, \<open>complete\<close>, the return of \<open>wait_for_completion\<close>, unlock; the
  result is the \<open>status\<close> field of the core's work slot, which holds what
  \<open>set_cpu_freq\<close> returned, and the caller's task is untouched.
\<close>

theorem target_dispatch:
  assumes active: "cpu_active e (cpu pol)" and alloc: "alloc_cpumask_var e"
    and awake: "device_suspended (cpufreq_suspend s (cpu pol)) = 0"
    and tbl: "cpufreq_frequency_get_table e (cpu pol) = Some table"
    and res: "cpufreq_frequency_table_target pol table target_freq r = Some index"
  shows "\<exists>ret s'. msm_cpufreq_target e pol target_freq r s = Some (ret, s') \<and>
     (if cpus_allowed (current s) = {cpu pol} then
        ret = fst (set_cpu_freq e pol (table ! index) s) \<and>
        emitted s s' = [MutexLock (cpu pol)] @
          emitted s (snd (set_cpu_freq e pol (table ! index) s)) @ [MutexUnlock (cpu pol)] \<and>
        (\<forall>ev \<in> set (emitted s s'). \<not> is_workqueue ev) \<and>
        current s' = current (snd (set_cpu_freq e pol (table ! index) s)) \<and>
        kworker s' = kworker s
      else
        ret = status (cpufreq_work s' (cpu pol)) \<and>
        ret = fst (set_cpu_freq e pol (table ! index) (s\<lparr>current := kworker s (cpu pol)\<rparr>)) \<and>
        emitted s s' =
          [MutexLock (cpu pol), CancelWorkSync (cpu pol), InitCompletion (cpu pol),
           QueueWorkOn (cpu pol)] @
          emitted (s\<lparr>current := kworker s (cpu pol)\<rparr>)
            (snd (set_cpu_freq e pol (table ! index) (s\<lparr>current := kworker s (cpu pol)\<rparr>))) @
          [Complete (cpu pol), WaitForCompletion (cpu pol), MutexUnlock (cpu pol)] \<and>
        current s' = current s \<and>
        kworker s' = (kworker s)
          (cpu pol := current (snd (set_cpu_freq e pol (table ! index)
                                     (s\<lparr>current := kworker s (cpu pol)\<rparr>)))))"
proof (cases "cpus_allowed (current s) = {cpu pol}")
  case True
  define s2 where "s2 = (mutex_lock (cpu pol) s)\<lparr>cpufreq_work := (cpufreq_work (mutex_lock (cpu pol) s))
      (cpu pol := (cpufreq_work (mutex_lock (cpu pol) s) (cpu pol))
         \<lparr>work_policy := Some pol, frequency := table ! index, status := - ENODEV\<rparr>)\<rparr>"
  define s3 where "s3 = snd (set_cpu_freq e pol (table ! index) s2)"
  have s2: "current s2 = current s" "trace s2 = trace s @ [MutexLock (cpu pol)]" "kworker s2 = kworker s"
    by (simp_all add: s2_def mutex_lock_def emit_def)
  have aff: "{cpu pol} = cpus_allowed (current s2)"
    using True s2 by simp
  have awake2: "device_suspended (cpufreq_suspend (mutex_lock (cpu pol) s) (cpu pol)) = 0"
    using awake by (simp add: mutex_lock_def emit_def)
  have run: "msm_cpufreq_target e pol target_freq r s
      = Some (fst (set_cpu_freq e pol (table ! index) s2), mutex_unlock (cpu pol) s3)"
    unfolding msm_cpufreq_target_def Let_def s2_def [symmetric]
    using active alloc awake2 aff
    by (simp add: tbl res goto_done_def case_prod_beta s3_def s2_def)
  have tr3: "trace s3 = trace s @ [MutexLock (cpu pol)] @ emitted s2 s3"
    unfolding s3_def using set_cpu_freq_trace [of e pol "table ! index" s2]
    by (simp add: s2)
  have em23: "emitted s2 s3 = emitted s (snd (set_cpu_freq e pol (table ! index) s))"
    unfolding s3_def by (rule set_cpu_freq_local(2) [OF s2(1)])
  have em: "emitted s (mutex_unlock (cpu pol) s3)
                 = [MutexLock (cpu pol)] @ emitted s (snd (set_cpu_freq e pol (table ! index) s))
                     @ [MutexUnlock (cpu pol)]"
    by (rule emitted_append) (simp add: mutex_unlock_def emit_def tr3 em23)
  have nowq: "\<forall>ev \<in> set (emitted s (mutex_unlock (cpu pol) s3)). \<not> is_workqueue ev"
    using set_cpu_freq_no_workqueue [of s e pol "table ! index"] by (simp add: em)
  have ret: "fst (set_cpu_freq e pol (table ! index) s2) = fst (set_cpu_freq e pol (table ! index) s)"
    by (rule set_cpu_freq_local(1) [OF s2(1)])
  have cur: "current (mutex_unlock (cpu pol) s3) = current (snd (set_cpu_freq e pol (table ! index) s))"
    unfolding s3_def using set_cpu_freq_local(3) [OF s2(1), of e pol "table ! index"]
    by (simp add: mutex_unlock_def emit_def)
  have kw: "kworker (mutex_unlock (cpu pol) s3) = kworker s"
    unfolding s3_def by (simp add: mutex_unlock_def emit_def set_cpu_freq_frame s2)
  from run ret em nowq cur kw True show ?thesis
    by simp
next
  case False
  let ?c = "cpu pol"
  let ?f = "table ! index"
  let ?sk = "s\<lparr>current := kworker s ?c\<rparr>"
  define s2 where "s2 = (mutex_lock ?c s)\<lparr>cpufreq_work := (cpufreq_work (mutex_lock ?c s))
      (?c := (cpufreq_work (mutex_lock ?c s) ?c)
         \<lparr>work_policy := Some pol, frequency := ?f, status := - ENODEV\<rparr>)\<rparr>"
  define s5 where "s5 = queue_work_on ?c (INIT_COMPLETION ?c (cancel_work_sync ?c s2))"
  define sw where "sw = s5\<lparr>cpufreq_work := (cpufreq_work s5)(?c := (cpufreq_work s5 ?c)\<lparr>work_pending := False\<rparr>),
                      current := kworker s5 ?c\<rparr>"
  define rr where "rr = set_cpu_freq e pol ?f sw"
  define s6 where "s6 = (snd rr)\<lparr>cpufreq_work := (cpufreq_work s5)
                      (?c := (cpufreq_work s5 ?c)\<lparr>work_pending := False, status := fst rr,
                                                 complete_done := 0\<rparr>),
                    kworker := (kworker s5)(?c := current (snd rr)),
                    current := current s5,
                    trace := trace (snd rr) @ [Complete ?c, WaitForCompletion ?c]\<rparr>"
  have s2: "current s2 = current s"
    by (simp add: s2_def mutex_lock_def emit_def)
  have aff1: "{?c} \<noteq> cpus_allowed (current (mutex_lock ?c s))"
    using False by (auto simp add: mutex_lock_def emit_def)
  have s5: "current s5 = current s" "kworker s5 = kworker s"
    "trace s5 = trace s @ [MutexLock ?c, CancelWorkSync ?c, InitCompletion ?c, QueueWorkOn ?c]"
    "work_policy (cpufreq_work s5 ?c) = Some pol" "complete_done (cpufreq_work s5 ?c) = 0"
    "work_pending (cpufreq_work s5 ?c)" "frequency (cpufreq_work s5 ?c) = ?f"
    by (simp_all add: s5_def s2_def mutex_lock_def emit_def cancel_work_sync_def INIT_COMPLETION_def
        queue_work_on_def)
  have wait: "wait_for_completion e ?c s5 = Some s6"
    using wait_for_completion_queued [OF s5(4) s5(5) s5(6), of e]
    by (simp add: Let_def s6_def rr_def sw_def s5(7))
  have awake2: "device_suspended (cpufreq_suspend (mutex_lock ?c s) ?c) = 0"
    using awake by (simp add: mutex_lock_def emit_def)
  have run: "msm_cpufreq_target e pol target_freq r s
      = Some (status (cpufreq_work s6 ?c), mutex_unlock ?c s6)"
    unfolding msm_cpufreq_target_def Let_def
    using active alloc awake2 aff1
    by (simp add: tbl res goto_done_def wait [unfolded s5_def s2_def])
  have sw: "current sw = current ?sk" "trace sw = trace s5"
    by (simp_all add: sw_def s5)
  have st: "status (cpufreq_work (mutex_unlock ?c s6) ?c) = fst rr"
    by (simp add: mutex_unlock_def emit_def s6_def)
  have st6: "status (cpufreq_work s6 ?c) = fst rr"
    by (simp add: s6_def)
  have ret: "fst rr = fst (set_cpu_freq e pol ?f ?sk)"
    unfolding rr_def by (rule set_cpu_freq_local(1) [OF sw(1)])
  have emw: "emitted sw (snd rr) = emitted ?sk (snd (set_cpu_freq e pol ?f ?sk))"
    unfolding rr_def by (rule set_cpu_freq_local(2) [OF sw(1)])
  have trr: "trace (snd rr) = trace s5 @ emitted sw (snd rr)"
    unfolding rr_def using set_cpu_freq_trace [of e pol ?f sw] by (simp add: sw)
  have em: "emitted s (mutex_unlock ?c s6) =
          [MutexLock ?c, CancelWorkSync ?c, InitCompletion ?c, QueueWorkOn ?c] @
          emitted ?sk (snd (set_cpu_freq e pol ?f ?sk)) @
          [Complete ?c, WaitForCompletion ?c, MutexUnlock ?c]"
    by (rule emitted_append) (simp add: mutex_unlock_def emit_def s6_def trr s5 emw)
  have cur: "current (mutex_unlock ?c s6) = current s"
    by (simp add: mutex_unlock_def emit_def s6_def s5)
  have kw: "kworker (mutex_unlock ?c s6) =
      (kworker s)(?c := current (snd (set_cpu_freq e pol ?f ?sk)))"
    using set_cpu_freq_local(3) [OF sw(1), of e pol ?f]
    by (simp add: mutex_unlock_def emit_def s6_def s5 rr_def)
  from run st st6 ret em cur kw False show ?thesis
    by simp
qed

theorem target_dispatch_witness:
  "cpu_active env0 (cpu pol0) \<and> alloc_cpumask_var env0 \<and>
   device_suspended (cpufreq_suspend s0 (cpu pol0)) = 0 \<and>
   cpufreq_frequency_get_table env0 (cpu pol0) = Some [300, 600, 900] \<and>
   cpufreq_frequency_table_target pol0 [300, 600, 900] 750 CPUFREQ_RELATION_L = Some 2 \<and>
   cpus_allowed (current s0) \<noteq> {cpu pol0} \<and>
   (\<exists>ret s'. msm_cpufreq_target env0 pol0 750 CPUFREQ_RELATION_L s0 = Some (ret, s') \<and>
      ret = 0 \<and> status (cpufreq_work s' 0) = 0 \<and> current s' = task0 \<and>
      emitted s0 s' =
        [MutexLock 0, CancelWorkSync 0, InitCompletion 0, QueueWorkOn 0,
         SchedSetscheduler 1 99, NotifyTransition 0 600 900 CPUFREQ_PRECHANGE,
         AcpuclkSetRate 0 900 0, NotifyTransition 0 600 900 CPUFREQ_POSTCHANGE,
         SchedSetscheduler 0 0, Complete 0, WaitForCompletion 0, MutexUnlock 0]) \<and>
   cpus_allowed (current (s0\<lparr>current := task_fifo\<rparr>)) = {cpu pol0} \<and>
   (\<exists>ret s'. msm_cpufreq_target env0 pol0 750 CPUFREQ_RELATION_L (s0\<lparr>current := task_fifo\<rparr>)
        = Some (ret, s') \<and>
      ret = 0 \<and> current s' = task_fifo \<and>
      emitted (s0\<lparr>current := task_fifo\<rparr>) s' =
        [MutexLock 0, NotifyTransition 0 600 900 CPUFREQ_PRECHANGE,
         AcpuclkSetRate 0 900 0, NotifyTransition 0 600 900 CPUFREQ_POSTCHANGE, MutexUnlock 0])"
proof -
  have active: "cpu_active env0 (cpu pol0)" and alloc: "alloc_cpumask_var env0"
    and tbl: "cpufreq_frequency_get_table env0 (cpu pol0) = Some [300, 600, 900]"
    by (simp_all add: env0_def)
  have awake: "device_suspended (cpufreq_suspend s0 (cpu pol0)) = 0"
    and awake': "device_suspended (cpufreq_suspend (s0\<lparr>current := task_fifo\<rparr>) (cpu pol0)) = 0"
    by (simp_all add: s0_def)
  have res: "cpufreq_frequency_table_target pol0 [300, 600, 900] 750 CPUFREQ_RELATION_L = Some 2"
    by (simp add: cpufreq_frequency_table_target_def)
  have remote: "cpus_allowed (current s0) \<noteq> {cpu pol0}"
    by (simp add: s0_def task0_def pol0_def doubleton_eq_iff)
  have inline: "cpus_allowed (current (s0\<lparr>current := task_fifo\<rparr>)) = {cpu pol0}"
    by (simp add: task_fifo_def pol0_def)
  have k: "kworker s0 (cpu pol0) = task0" "current s0 = task0"
    by (simp_all add: s0_def)
  from target_dispatch [OF active alloc awake tbl res] remote
  have one: "\<exists>ret s'. msm_cpufreq_target env0 pol0 750 CPUFREQ_RELATION_L s0 = Some (ret, s') \<and>
      ret = 0 \<and> status (cpufreq_work s' 0) = 0 \<and> current s' = task0 \<and>
      emitted s0 s' =
        [MutexLock 0, CancelWorkSync 0, InitCompletion 0, QueueWorkOn 0,
         SchedSetscheduler 1 99, NotifyTransition 0 600 900 CPUFREQ_PRECHANGE,
         AcpuclkSetRate 0 900 0, NotifyTransition 0 600 900 CPUFREQ_POSTCHANGE,
         SchedSetscheduler 0 0, Complete 0, WaitForCompletion 0, MutexUnlock 0]"
    by (simp add: set_cpu_freq_emitted set_cpu_freq_ret k)
       (auto simp add: pol0_def env0_def task0_def constant_defs)
  from target_dispatch [OF active alloc awake' tbl res] inline
  have two: "\<exists>ret s'. msm_cpufreq_target env0 pol0 750 CPUFREQ_RELATION_L (s0\<lparr>current := task_fifo\<rparr>)
        = Some (ret, s') \<and>
      ret = 0 \<and> current s' = task_fifo \<and>
      emitted (s0\<lparr>current := task_fifo\<rparr>) s' =
        [MutexLock 0, NotifyTransition 0 600 900 CPUFREQ_PRECHANGE,
         AcpuclkSetRate 0 900 0, NotifyTransition 0 600 900 CPUFREQ_POSTCHANGE, MutexUnlock 0]"
    by (simp add: set_cpu_freq_emitted set_cpu_freq_ret set_cpu_freq_current)
       (auto simp add: pol0_def env0_def task_fifo_def constant_defs)
  from active alloc awake tbl res remote one inline two show ?thesis
    by (intro conjI)
qed

text \<open>
  C4, amended. With a table for the core, \<open>msm_cpufreq_init\<close> resolves the rate the
  clock reports with \<open>CPUFREQ_RELATION_H\<close> first, rounding down, and with
  \<open>CPUFREQ_RELATION_L\<close>, rounding up, only when that fails: the frequency \<open>g\<close> it
  settles on is the highest entry at or below the rate when there is one, and the lowest
  entry otherwise. It sets the clock to \<open>g\<close> unless the rate is \<open>g\<close> already, and
  records \<open>g\<close> on success. Both relations fail only on a table without entries,
  and then it returns \<open>-EINVAL\<close> and does nothing.
\<close>

theorem init_rounds_down_first:
  assumes tbl: "cpufreq_frequency_get_table e (cpu pol) = Some table"
  shows "((cpufreq_frequency_table_target pol table (acpuclk_get_rate e (cpu pol)) CPUFREQ_RELATION_H = None \<and>
           cpufreq_frequency_table_target pol table (acpuclk_get_rate e (cpu pol)) CPUFREQ_RELATION_L = None)
            \<longleftrightarrow> table = []) \<and>
         (table = [] \<longrightarrow> msm_cpufreq_init e pol s = (- EINVAL, pol, s)) \<and>
         (table \<noteq> [] \<longrightarrow>
            (\<exists>g \<in> set table.
               (if \<exists>f \<in> set table. f \<le> acpuclk_get_rate e (cpu pol)
                then g \<le> acpuclk_get_rate e (cpu pol) \<and>
                     (\<forall>f \<in> set table. f \<le> acpuclk_get_rate e (cpu pol) \<longrightarrow> f \<le> g)
                else \<forall>f \<in> set table. g \<le> f) \<and>
               fst (msm_cpufreq_init e pol s) =
                 (if g = acpuclk_get_rate e (cpu pol) then 0 else acpuclk_set_rate e (cpu pol) g) \<and>
               emitted s (snd (snd (msm_cpufreq_init e pol s))) =
                 (if g = acpuclk_get_rate e (cpu pol) then []
                  else [AcpuclkSetRate (cpu pol) g (acpuclk_set_rate e (cpu pol) g)]) \<and>
               (fst (msm_cpufreq_init e pol s) = 0 \<longrightarrow>
                  cur (fst (snd (msm_cpufreq_init e pol s))) = g)))"
proof -
  let ?cf = "acpuclk_get_rate e (cpu pol)"
  let ?H = "cpufreq_frequency_table_target pol table ?cf CPUFREQ_RELATION_H"
  let ?L = "cpufreq_frequency_table_target pol table ?cf CPUFREQ_RELATION_L"
  have both: "(?H = None \<and> ?L = None) \<longleftrightarrow> table = []"
  proof
    assume "?H = None \<and> ?L = None"
    then have "\<forall>f \<in> set table. \<not> f \<le> ?cf \<and> \<not> ?cf \<le> f"
      by (simp add: table_target_None)
    then show "table = []" by (cases table) auto
  next
    assume "table = []"
    then show "?H = None \<and> ?L = None" by (simp add: table_target_None)
  qed
  have empty: "table = [] \<longrightarrow> msm_cpufreq_init e pol s = (- EINVAL, pol, s)"
    using both by (auto simp: msm_cpufreq_init_def tbl)
  have outcome: "fst (msm_cpufreq_init e pol s) =
                 (if table ! i = ?cf then 0 else acpuclk_set_rate e (cpu pol) (table ! i)) \<and>
               emitted s (snd (snd (msm_cpufreq_init e pol s))) =
                 (if table ! i = ?cf then []
                  else [AcpuclkSetRate (cpu pol) (table ! i) (acpuclk_set_rate e (cpu pol) (table ! i))]) \<and>
               (fst (msm_cpufreq_init e pol s) = 0 \<longrightarrow>
                  cur (fst (snd (msm_cpufreq_init e pol s))) = table ! i)"
    if "?H = Some i \<or> ?H = None \<and> ?L = Some i" for i
    using msm_cpufreq_init_index [OF tbl that, of s]
    by (simp add: emitted_def emit_def init_work_trace)
  have nonempty: "\<exists>g \<in> set table.
               (if \<exists>f \<in> set table. f \<le> ?cf
                then g \<le> ?cf \<and> (\<forall>f \<in> set table. f \<le> ?cf \<longrightarrow> f \<le> g)
                else \<forall>f \<in> set table. g \<le> f) \<and>
               fst (msm_cpufreq_init e pol s) =
                 (if g = ?cf then 0 else acpuclk_set_rate e (cpu pol) g) \<and>
               emitted s (snd (snd (msm_cpufreq_init e pol s))) =
                 (if g = ?cf then [] else [AcpuclkSetRate (cpu pol) g (acpuclk_set_rate e (cpu pol) g)]) \<and>
               (fst (msm_cpufreq_init e pol s) = 0 \<longrightarrow>
                  cur (fst (snd (msm_cpufreq_init e pol s))) = g)"
    if ne: "table \<noteq> []"
  proof (cases ?H)
    case (Some i)
    from table_target_H [OF Some] have i: "i < length table" "table ! i \<le> ?cf"
      "\<forall>f \<in> set table. f \<le> ?cf \<longrightarrow> f \<le> table ! i" by simp_all
    from i(1) have mem: "table ! i \<in> set table" by simp
    from i(2) mem have ex: "\<exists>f \<in> set table. f \<le> ?cf" by blast
    from outcome [of i] Some ex i mem show ?thesis
      by (intro bexI [of _ "table ! i"]) simp_all
  next
    case None
    then have no: "\<not> (\<exists>f \<in> set table. f \<le> ?cf)"
      by (simp add: table_target_None)
    from None both ne obtain i where L: "?L = Some i" by (cases ?L) auto
    from table_target_L [OF L] have i: "i < length table"
      "\<forall>f \<in> set table. ?cf \<le> f \<longrightarrow> table ! i \<le> f" by simp_all
    from i(1) have mem: "table ! i \<in> set table" by simp
    from no i(2) have least: "\<forall>f \<in> set table. table ! i \<le> f"
      by (meson linear)
    from outcome [of i] None L no least mem show ?thesis
      by (intro bexI [of _ "table ! i"]) simp_all
  qed
  from both empty nonempty show ?thesis by blast
qed

theorem init_rounds_down_first_witness:
  "cpufreq_frequency_get_table env750 (cpu pol0) = Some [300, 600, 900] \<and>
   acpuclk_get_rate env750 (cpu pol0) = 750 \<and>
   fst (msm_cpufreq_init env750 pol0 s0) = 0 \<and>
   emitted s0 (snd (snd (msm_cpufreq_init env750 pol0 s0))) = [AcpuclkSetRate 0 600 0] \<and>
   cur (fst (snd (msm_cpufreq_init env750 pol0 s0))) = 600 \<and>
   cpufreq_frequency_get_table env_empty_table (cpu pol0) = Some [] \<and>
   msm_cpufreq_init env_empty_table pol0 s0 = (- EINVAL, pol0, s0)"
proof -
  have tbl: "cpufreq_frequency_get_table env750 (cpu pol0) = Some [300, 600, 900]"
    and emp: "cpufreq_frequency_get_table env_empty_table (cpu pol0) = Some []"
    by (simp_all add: env750_def env0_def env_empty_table_def)
  have rate: "acpuclk_get_rate env750 (cpu pol0) = 750"
    and ret: "acpuclk_set_rate env750 (cpu pol0) = (\<lambda>f. 0)"
    by (simp_all add: env750_def env0_def)
  from init_rounds_down_first [OF tbl, of s0] rate ret
  have a: "fst (msm_cpufreq_init env750 pol0 s0) = 0 \<and>
   emitted s0 (snd (snd (msm_cpufreq_init env750 pol0 s0))) = [AcpuclkSetRate 0 600 0] \<and>
   cur (fst (snd (msm_cpufreq_init env750 pol0 s0))) = 600"
    by (auto simp add: pol0_def)
  from init_rounds_down_first [OF emp, of s0]
  have b: "msm_cpufreq_init env_empty_table pol0 s0 = (- EINVAL, pol0, s0)"
    by simp
  from tbl emp rate a b show ?thesis by simp
qed

text \<open>
  The claim as stated fails on the table 300, 600, 900 with the clock at 750: rounding
  up resolves to 900, and \<open>msm_cpufreq_init\<close> sets the clock to 600 and records 600.
\<close>

theorem init_rounds_down_first_counterexample:
  "cpufreq_frequency_get_table env750 (cpu pol0) = Some [300, 600, 900] \<and>
   acpuclk_get_rate env750 (cpu pol0) = 750 \<and>
   cpufreq_frequency_table_target pol0 [300, 600, 900] 750 CPUFREQ_RELATION_L = Some 2 \<and>
   [300, 600, 900] ! 2 = (900 :: 32 word) \<and>
   fst (msm_cpufreq_init env750 pol0 s0) = 0 \<and>
   emitted s0 (snd (snd (msm_cpufreq_init env750 pol0 s0))) = [AcpuclkSetRate 0 600 0] \<and>
   cur (fst (snd (msm_cpufreq_init env750 pol0 s0))) = 600"
  by (simp add: msm_cpufreq_init_def cpufreq_frequency_table_target_def env750_def env0_def
      pol0_def s0_def call_acpuclk_set_rate_def emit_def emitted_def init_work_def Let_def)

text \<open>
  C5. In every call of \<open>set_cpu_freq\<close> the pre-change notification is the first
  notification and is directly followed by the one call of \<open>acpuclk_set_rate\<close>; the
  only notification after it is the post-change one, present exactly when
  \<open>acpuclk_set_rate\<close> returned 0; and the call returns what \<open>acpuclk_set_rate\<close>
  returned.
\<close>

theorem executor_notifies:
  "\<exists>pre post.
     emitted s (snd (set_cpu_freq e pol new s)) =
       pre @ [NotifyTransition (cpu pol) (cur pol) new CPUFREQ_PRECHANGE,
              AcpuclkSetRate (cpu pol) new (fst (set_cpu_freq e pol new s))] @ post \<and>
     (\<forall>ev \<in> set pre. \<not> is_notify ev \<and> \<not> is_set_rate ev) \<and>
     (\<forall>ev \<in> set post. \<not> is_set_rate ev) \<and>
     filter is_notify post =
       (if fst (set_cpu_freq e pol new s) = 0
        then [NotifyTransition (cpu pol) (cur pol) new CPUFREQ_POSTCHANGE] else []) \<and>
     fst (set_cpu_freq e pol new s) = acpuclk_set_rate e (cpu pol) new"
proof -
  let ?pre = "if cur pol < new \<and> policy (current s) \<noteq> SCHED_FIFO
      then [SchedSetscheduler (sint SCHED_FIFO) (MAX_RT_PRIO - 1)] else []"
  let ?post = "(if acpuclk_set_rate e (cpu pol) new = 0
      then [NotifyTransition (cpu pol) (cur pol) new CPUFREQ_POSTCHANGE] else []) @
     (if cur pol < new \<and> policy (current s) \<noteq> SCHED_FIFO \<and> 0 \<le> sint (policy (current s))
      then [SchedSetscheduler (sint (policy (current s))) (sint (rt_priority (current s)))] else [])"
  have "emitted s (snd (set_cpu_freq e pol new s)) =
       ?pre @ [NotifyTransition (cpu pol) (cur pol) new CPUFREQ_PRECHANGE,
              AcpuclkSetRate (cpu pol) new (fst (set_cpu_freq e pol new s))] @ ?post"
    by (simp add: set_cpu_freq_emitted set_cpu_freq_ret)
  moreover have "\<forall>ev \<in> set ?pre. \<not> is_notify ev \<and> \<not> is_set_rate ev" by simp
  moreover have "\<forall>ev \<in> set ?post. \<not> is_set_rate ev" by auto
  moreover have "filter is_notify ?post =
       (if fst (set_cpu_freq e pol new s) = 0
        then [NotifyTransition (cpu pol) (cur pol) new CPUFREQ_POSTCHANGE] else [])"
    by (simp add: set_cpu_freq_ret)
  ultimately show ?thesis
    using set_cpu_freq_ret by blast
qed

theorem executor_notifies_witness:
  "emitted s0 (snd (set_cpu_freq (env0\<lparr>acpuclk_set_rate := (\<lambda>c f. - 5)\<rparr>) pol0 900 s0)) =
     [SchedSetscheduler 1 99, NotifyTransition 0 600 900 CPUFREQ_PRECHANGE,
      AcpuclkSetRate 0 900 (- 5), SchedSetscheduler 0 0] \<and>
   fst (set_cpu_freq (env0\<lparr>acpuclk_set_rate := (\<lambda>c f. - 5)\<rparr>) pol0 900 s0) = - 5"
  using executor_notifies [of s0 "env0\<lparr>acpuclk_set_rate := (\<lambda>c f. - 5)\<rparr>" pol0 900]
  by (simp add: set_cpu_freq_emitted set_cpu_freq_ret scenario_defs constant_defs)

text \<open>
  C6, amended. Of the stores of \<open>device_suspended\<close> the lifecycle handlers make, only
  the one on \<open>CPU_DOWN_PREPARE\<close> and \<open>CPU_DOWN_PREPARE_FROZEN\<close> is made with the
  core's suspend mutex held. The callback's store on the online and down-failed actions
  and the stores of \<open>msm_cpufreq_suspend\<close> and \<open>msm_cpufreq_resume\<close>, one for each
  possible core, are made without the mutex.
\<close>

theorem lifecycle_stores:
  "(stores_locked {} (emitted s (snd (msm_cpufreq_cpu_callback action c s)))
      \<longleftrightarrow> action \<notin> {CPU_ONLINE, CPU_ONLINE_FROZEN, CPU_DOWN_FAILED, CPU_DOWN_FAILED_FROZEN}) \<and>
   (action \<in> {CPU_DOWN_PREPARE, CPU_DOWN_PREPARE_FROZEN} \<longrightarrow>
      emitted s (snd (msm_cpufreq_cpu_callback action c s))
        = [MutexLock c, StoreSuspended c 1, MutexUnlock c]) \<and>
   (action \<in> {CPU_ONLINE, CPU_ONLINE_FROZEN, CPU_DOWN_FAILED, CPU_DOWN_FAILED_FROZEN} \<longrightarrow>
      emitted s (snd (msm_cpufreq_cpu_callback action c s)) = [StoreSuspended c 0]) \<and>
   emitted s (snd (msm_cpufreq_suspend e pol s)) = map (\<lambda>c. StoreSuspended c 1) (possible_cpus e) \<and>
   emitted s (snd (msm_cpufreq_resume e pol s)) = map (\<lambda>c. StoreSuspended c 0) (possible_cpus e) \<and>
   (stores_locked {} (emitted s (snd (msm_cpufreq_suspend e pol s))) \<longleftrightarrow> possible_cpus e = []) \<and>
   (stores_locked {} (emitted s (snd (msm_cpufreq_resume e pol s))) \<longleftrightarrow> possible_cpus e = [])"
proof -
  have cb: "stores_locked {} (emitted s (snd (msm_cpufreq_cpu_callback action c s)))
      \<longleftrightarrow> action \<notin> {CPU_ONLINE, CPU_ONLINE_FROZEN, CPU_DOWN_FAILED, CPU_DOWN_FAILED_FROZEN}"
    by (simp add: callback_emitted)
  have prep: "action \<in> {CPU_DOWN_PREPARE, CPU_DOWN_PREPARE_FROZEN} \<longrightarrow>
      emitted s (snd (msm_cpufreq_cpu_callback action c s))
        = [MutexLock c, StoreSuspended c 1, MutexUnlock c]"
    by (auto simp add: callback_emitted action_defs)
  have up: "action \<in> {CPU_ONLINE, CPU_ONLINE_FROZEN, CPU_DOWN_FAILED, CPU_DOWN_FAILED_FROZEN} \<longrightarrow>
      emitted s (snd (msm_cpufreq_cpu_callback action c s)) = [StoreSuspended c 0]"
    by (simp add: callback_emitted)
  have su: "emitted s (snd (msm_cpufreq_suspend e pol s)) = map (\<lambda>c. StoreSuspended c 1) (possible_cpus e)"
    by (simp add: msm_cpufreq_suspend_def emitted_def fold_store_suspended_trace)
  have re: "emitted s (snd (msm_cpufreq_resume e pol s)) = map (\<lambda>c. StoreSuspended c 0) (possible_cpus e)"
    by (simp add: msm_cpufreq_resume_def emitted_def fold_store_suspended_trace)
  show ?thesis
    using cb prep up su re by (simp add: stores_locked_map_store)
qed

theorem lifecycle_stores_witness:
  "stores_locked {} (emitted s0 (snd (msm_cpufreq_cpu_callback CPU_DOWN_PREPARE 0 s0))) \<and>
   emitted s0 (snd (msm_cpufreq_cpu_callback CPU_DOWN_PREPARE 0 s0))
     = [MutexLock 0, StoreSuspended 0 1, MutexUnlock 0] \<and>
   emitted s0 (snd (msm_cpufreq_cpu_callback CPU_DOWN_FAILED_FROZEN 0 s0)) = [StoreSuspended 0 0] \<and>
   emitted s0 (snd (msm_cpufreq_suspend env0 pol0 s0)) = [StoreSuspended 0 1, StoreSuspended 1 1] \<and>
   \<not> stores_locked {} (emitted s0 (snd (msm_cpufreq_suspend env0 pol0 s0)))"
  using lifecycle_stores [of s0 CPU_DOWN_PREPARE 0 env0 pol0]
    lifecycle_stores [of s0 CPU_DOWN_FAILED_FROZEN 0 env0 pol0]
  by (simp add: action_defs env0_def)

text \<open>
  The claim as stated fails on \<open>CPU_ONLINE\<close>: the flag of core 0 is stored and the
  mutex is never taken.
\<close>

theorem lifecycle_stores_counterexample:
  "emitted s0 (snd (msm_cpufreq_cpu_callback CPU_ONLINE 0 s0)) = [StoreSuspended 0 0] \<and>
   \<not> stores_locked {} (emitted s0 (snd (msm_cpufreq_cpu_callback CPU_ONLINE 0 s0)))"
  by (simp add: msm_cpufreq_cpu_callback_def primitive_defs emitted_def s0_def)

text \<open>
  C7. A call of \<open>msm_cpufreq_target\<close> for a core that is not active returns \<open>-ENODEV\<close>
  at once: the state, and with it the trace, is the one it was called in, so the suspend
  mutex was not taken, no table was consulted, nothing was dispatched and the clock was
  not set.
\<close>

theorem target_inactive_core:
  "\<not> cpu_active e (cpu pol) \<Longrightarrow> msm_cpufreq_target e pol target_freq r s = Some (- ENODEV, s)"
  by (simp add: msm_cpufreq_target_def)

theorem target_inactive_core_witness:
  "\<not> cpu_active (env0\<lparr>cpu_active := (\<lambda>c. c \<noteq> 0)\<rparr>) (cpu pol0) \<and>
   msm_cpufreq_target (env0\<lparr>cpu_active := (\<lambda>c. c \<noteq> 0)\<rparr>) pol0 750 CPUFREQ_RELATION_L s0
     = Some (- ENODEV, s0)"
  using target_inactive_core [of "env0\<lparr>cpu_active := (\<lambda>c. c \<noteq> 0)\<rparr>" pol0 750 CPUFREQ_RELATION_L s0]
  by (simp add: pol0_def)

text \<open>
  C8. \<open>msm_cpufreq_init\<close> returns \<open>-ENODEV\<close> and changes nothing when the core has
  no table. When the table resolves the reported rate to an entry, the entry is within
  the table; if it equals the reported rate no clock call is made and it is recorded
  as \<open>cur\<close>; if it differs, \<open>acpuclk_set_rate\<close> is called once with it, a
  non-zero return of that call is the return of \<open>msm_cpufreq_init\<close> with the policy
  and the work slots untouched, and on a zero return the entry is recorded as \<open>cur\<close>.
\<close>

theorem init_table_and_clock:
  "(cpufreq_frequency_get_table e (cpu pol) = None \<longrightarrow>
      msm_cpufreq_init e pol s = (- ENODEV, pol, s)) \<and>
   (\<forall>table index.
      cpufreq_frequency_get_table e (cpu pol) = Some table \<and>
      (cpufreq_frequency_table_target pol table (acpuclk_get_rate e (cpu pol)) CPUFREQ_RELATION_H
         = Some index \<or>
       cpufreq_frequency_table_target pol table (acpuclk_get_rate e (cpu pol)) CPUFREQ_RELATION_H
         = None \<and>
       cpufreq_frequency_table_target pol table (acpuclk_get_rate e (cpu pol)) CPUFREQ_RELATION_L
         = Some index) \<longrightarrow>
      index < length table \<and>
      (table ! index = acpuclk_get_rate e (cpu pol) \<longrightarrow>
         msm_cpufreq_init e pol s = (0, pol\<lparr>cur := table ! index\<rparr>, init_work (cpu pol) s)) \<and>
      (table ! index \<noteq> acpuclk_get_rate e (cpu pol) \<longrightarrow>
         fst (msm_cpufreq_init e pol s) = acpuclk_set_rate e (cpu pol) (table ! index) \<and>
         emitted s (snd (snd (msm_cpufreq_init e pol s)))
           = [AcpuclkSetRate (cpu pol) (table ! index) (fst (msm_cpufreq_init e pol s))] \<and>
         (fst (msm_cpufreq_init e pol s) = 0 \<longrightarrow>
            cur (fst (snd (msm_cpufreq_init e pol s))) = table ! index) \<and>
         (fst (msm_cpufreq_init e pol s) \<noteq> 0 \<longrightarrow>
            fst (snd (msm_cpufreq_init e pol s)) = pol \<and>
            cpufreq_work (snd (snd (msm_cpufreq_init e pol s))) = cpufreq_work s)))"
proof (intro conjI allI impI; (elim conjE)?)
  show "msm_cpufreq_init e pol s = (- ENODEV, pol, s)"
    if "cpufreq_frequency_get_table e (cpu pol) = None"
    using that by (simp add: msm_cpufreq_init_def)
next
  fix table index
  assume tbl: "cpufreq_frequency_get_table e (cpu pol) = Some table"
    and res: "cpufreq_frequency_table_target pol table (acpuclk_get_rate e (cpu pol)) CPUFREQ_RELATION_H
         = Some index \<or>
       cpufreq_frequency_table_target pol table (acpuclk_get_rate e (cpu pol)) CPUFREQ_RELATION_H
         = None \<and>
       cpufreq_frequency_table_target pol table (acpuclk_get_rate e (cpu pol)) CPUFREQ_RELATION_L
         = Some index"
  note init = msm_cpufreq_init_index [OF tbl res, of s]
  from res show "index < length table"
    using table_target_H table_target_L by blast
  show "msm_cpufreq_init e pol s = (0, pol\<lparr>cur := table ! index\<rparr>, init_work (cpu pol) s)"
    if "table ! index = acpuclk_get_rate e (cpu pol)"
    using that init by simp
  assume ne: "table ! index \<noteq> acpuclk_get_rate e (cpu pol)"
  show "fst (msm_cpufreq_init e pol s) = acpuclk_set_rate e (cpu pol) (table ! index)"
    using ne init by simp
  show "emitted s (snd (snd (msm_cpufreq_init e pol s)))
           = [AcpuclkSetRate (cpu pol) (table ! index) (fst (msm_cpufreq_init e pol s))]"
    using ne init by (simp add: emitted_def emit_def init_work_trace)
  show "cur (fst (snd (msm_cpufreq_init e pol s))) = table ! index"
    if "fst (msm_cpufreq_init e pol s) = 0"
    using that ne init by (simp split: if_splits)
  show "fst (snd (msm_cpufreq_init e pol s)) = pol"
    if "fst (msm_cpufreq_init e pol s) \<noteq> 0"
    using that ne init by (simp split: if_splits)
  show "cpufreq_work (snd (snd (msm_cpufreq_init e pol s))) = cpufreq_work s"
    if "fst (msm_cpufreq_init e pol s) \<noteq> 0"
    using that ne init by (simp add: emit_def split: if_splits)
qed

theorem init_table_and_clock_witness:
  "cpufreq_frequency_get_table env_no_table (cpu pol0) = None \<and>
   msm_cpufreq_init env_no_table pol0 s0 = (- ENODEV, pol0, s0) \<and>
   cpufreq_frequency_get_table env_fail (cpu pol0) = Some [300, 600, 900] \<and>
   acpuclk_get_rate env_fail (cpu pol0) = 750 \<and>
   cpufreq_frequency_table_target pol0 [300, 600, 900] 750 CPUFREQ_RELATION_H = Some 1 \<and>
   fst (msm_cpufreq_init env_fail pol0 s0) = - 5 \<and>
   emitted s0 (snd (snd (msm_cpufreq_init env_fail pol0 s0))) = [AcpuclkSetRate 0 600 (- 5)] \<and>
   fst (snd (msm_cpufreq_init env_fail pol0 s0)) = pol0 \<and>
   cpufreq_frequency_get_table env750 (cpu pol0) = Some [300, 600, 900] \<and>
   fst (msm_cpufreq_init env750 pol0 s0) = 0 \<and>
   emitted s0 (snd (snd (msm_cpufreq_init env750 pol0 s0))) = [AcpuclkSetRate 0 600 0] \<and>
   cur (fst (snd (msm_cpufreq_init env750 pol0 s0))) = 600 \<and>
   cpufreq_frequency_table_target pol0 [300, 600, 900] 600 CPUFREQ_RELATION_H = Some 1 \<and>
   msm_cpufreq_init env0 pol0 s0 = (0, pol0\<lparr>cur := 600\<rparr>, init_work 0 s0)"
proof -
  have none: "cpufreq_frequency_get_table env_no_table (cpu pol0) = None"
    by (simp add: env_no_table_def)
  have tbl: "cpufreq_frequency_get_table env_fail (cpu pol0) = Some [300, 600, 900]"
    "cpufreq_frequency_get_table env750 (cpu pol0) = Some [300, 600, 900]"
    "cpufreq_frequency_get_table env0 (cpu pol0) = Some [300, 600, 900]"
    by (simp_all add: env_fail_def env750_def env0_def)
  have res: "cpufreq_frequency_table_target pol0 [300, 600, 900] 750 CPUFREQ_RELATION_H = Some 1"
    "cpufreq_frequency_table_target pol0 [300, 600, 900] 600 CPUFREQ_RELATION_H = Some 1"
    by (simp_all add: cpufreq_frequency_table_target_def)
  have rate: "acpuclk_get_rate env_fail (cpu pol0) = 750" "acpuclk_get_rate env750 (cpu pol0) = 750"
    "acpuclk_get_rate env0 (cpu pol0) = 600"
    and ret: "acpuclk_set_rate env_fail (cpu pol0) 600 = - 5" "acpuclk_set_rate env750 (cpu pol0) 600 = 0"
    by (simp_all add: env_fail_def env750_def env0_def)
  from init_table_and_clock [of env_no_table pol0 s0, THEN conjunct1] none
  have a: "msm_cpufreq_init env_no_table pol0 s0 = (- ENODEV, pol0, s0)" by simp
  from init_table_and_clock [of env_fail pol0 s0, THEN conjunct2, rule_format, of "[300, 600, 900]" 1]
    tbl res rate ret
  have b: "fst (msm_cpufreq_init env_fail pol0 s0) = - 5 \<and>
   emitted s0 (snd (snd (msm_cpufreq_init env_fail pol0 s0))) = [AcpuclkSetRate 0 600 (- 5)] \<and>
   fst (snd (msm_cpufreq_init env_fail pol0 s0)) = pol0"
    by (simp add: pol0_def)
  from init_table_and_clock [of env750 pol0 s0, THEN conjunct2, rule_format, of "[300, 600, 900]" 1]
    tbl res rate ret
  have c: "fst (msm_cpufreq_init env750 pol0 s0) = 0 \<and>
   emitted s0 (snd (snd (msm_cpufreq_init env750 pol0 s0))) = [AcpuclkSetRate 0 600 0] \<and>
   cur (fst (snd (msm_cpufreq_init env750 pol0 s0))) = 600"
    by (simp add: pol0_def)
  from init_table_and_clock [of env0 pol0 s0, THEN conjunct2, rule_format, of "[300, 600, 900]" 1]
    tbl res rate
  have d: "msm_cpufreq_init env0 pol0 s0 = (0, pol0\<lparr>cur := 600\<rparr>, init_work 0 s0)"
    by (simp add: pol0_def)
  from none a tbl rate res b c d show ?thesis by simp
qed

text \<open>
  C9. When the core is active and \<open>alloc_cpumask_var\<close> fails, \<open>msm_cpufreq_target\<close>
  returns \<open>-ENOMEM\<close> in the state it was called in: the mutex is not taken, nothing is
  notified, dispatched or set, and no per-core state changes.
\<close>

theorem target_alloc_failure:
  "cpu_active e (cpu pol) \<Longrightarrow> \<not> alloc_cpumask_var e \<Longrightarrow>
   msm_cpufreq_target e pol target_freq r s = Some (- ENOMEM, s)"
  by (simp add: msm_cpufreq_target_def)

theorem target_alloc_failure_witness:
  "cpu_active (env0\<lparr>alloc_cpumask_var := False\<rparr>) (cpu pol0) \<and>
   \<not> alloc_cpumask_var (env0\<lparr>alloc_cpumask_var := False\<rparr>) \<and>
   msm_cpufreq_target (env0\<lparr>alloc_cpumask_var := False\<rparr>) pol0 750 CPUFREQ_RELATION_H s0
     = Some (- ENOMEM, s0)"
  using target_alloc_failure [of "env0\<lparr>alloc_cpumask_var := False\<rparr>" pol0 750 CPUFREQ_RELATION_H s0]
  by (simp add: env0_def)

text \<open>
  C10. \<open>msm_cpufreq_cpu_callback\<close> returns \<open>NOTIFY_OK\<close> for every action, and for
  an action that is none of the six of its \<open>switch\<close> it leaves the state, and so
  every core's \<open>device_suspended\<close>, unchanged.
\<close>

theorem callback_other_action:
  "fst (msm_cpufreq_cpu_callback action c s) = NOTIFY_OK \<and>
   (action \<notin> {CPU_ONLINE, CPU_ONLINE_FROZEN, CPU_DOWN_PREPARE, CPU_DOWN_PREPARE_FROZEN,
                CPU_DOWN_FAILED, CPU_DOWN_FAILED_FROZEN} \<longrightarrow>
      snd (msm_cpufreq_cpu_callback action c s) = s \<and>
      (\<forall>c'. device_suspended (cpufreq_suspend (snd (msm_cpufreq_cpu_callback action c s)) c')
             = device_suspended (cpufreq_suspend s c')))"
  by (simp add: msm_cpufreq_cpu_callback_def)

theorem callback_other_action_witness:
  "fst (msm_cpufreq_cpu_callback 7 0 s0) = NOTIFY_OK \<and>
   (7::32 word) \<notin> {CPU_ONLINE, CPU_ONLINE_FROZEN, CPU_DOWN_PREPARE, CPU_DOWN_PREPARE_FROZEN,
                CPU_DOWN_FAILED, CPU_DOWN_FAILED_FROZEN} \<and>
   snd (msm_cpufreq_cpu_callback 7 0 s0) = s0"
  using callback_other_action [of 7 0 s0]
  by (simp add: action_defs)

end
